theory Spec2Isabelle
  imports Complex_Main "HOL-Library.Word"
begin

section \<open>Conventions of the embedding\<close>

text \<open>
  The plugins are callback bodies run by a host simulator. Each callback is embedded as
  a function from the plugin's member variables (a record), its arguments and the part of
  the host it consults, to the updated member variables and the list of calls it makes on
  the transport layer, in program order. Log output (\<open>gzerr\<close>, \<open>gzmsg\<close>, \<open>gzdbg\<close>,
  \<open>ignerr\<close>, \<open>igndbg\<close>) is not recorded.

  C++ \<open>double\<close> and \<open>float\<close> values are embedded as real numbers: rounding, infinities and
  NaN are outside the model. An operation that the C++ standard leaves undefined (reading
  through an end iterator, stepping before the first element, reading an empty
  \<open>std::optional\<close>, leaving a value-returning function without \<open>return\<close>) is a value of
  the type \<open>fault\<close>, returned on the left of a sum.
\<close>

datatype fault =
    DerefEnd          \<comment> \<open>\<open>it->second\<close> with \<open>it == end()\<close>\<close>
  | PrevOfBegin       \<comment> \<open>\<open>std::prev(begin())\<close>\<close>
  | MissingReturn     \<comment> \<open>control reaches the end of a function returning \<open>double\<close>\<close>
  | EmptyOptional     \<comment> \<open>\<open>opt->member\<close> with \<open>opt == std::nullopt\<close>\<close>

section \<open>FinLiftDragPlugin\<close>

subsection \<open>The coefficient table: \<open>std::map<double, double>\<close>\<close>

text \<open>
  A \<open>std::map\<close> holds its entries in strictly increasing key order. The table is the list
  of its entries in iteration order; an iterator is a position in that list, and
  \<open>end()\<close> is the position one past the last entry.
\<close>

type_synonym spline = "(real \<times> real) list"

definition is_map :: "spline \<Rightarrow> bool" where
  "is_map s = sorted_wrt (<) (map fst s)"

definition map_begin :: "spline \<Rightarrow> nat" where
  "map_begin s = 0"

definition map_end :: "spline \<Rightarrow> nat" where
  "map_end s = length s"

definition map_count :: "spline \<Rightarrow> real \<Rightarrow> nat" where
  "map_count s k = length (filter (\<lambda>e. fst e = k) s)"

fun map_find :: "spline \<Rightarrow> real \<Rightarrow> nat" where
  "map_find [] k = 0"
| "map_find (e # s) k = (if fst e = k then 0 else Suc (map_find s k))"

fun upper_bound :: "spline \<Rightarrow> real \<Rightarrow> nat" where
  "upper_bound [] k = 0"
| "upper_bound (e # s) k = (if k < fst e then 0 else Suc (upper_bound s k))"

definition deref :: "spline \<Rightarrow> nat \<Rightarrow> fault + (real \<times> real)" where
  "deref s it = (if it < length s then Inr (s ! it) else Inl DerefEnd)"

definition prev_it :: "spline \<Rightarrow> nat \<Rightarrow> fault + nat" where
  "prev_it s it = (if it = map_begin s then Inl PrevOfBegin else Inr (it - 1))"

subsection \<open>\<open>FinLiftDragPrivateData::interpolate\<close>\<close>

text \<open>
  The body returns only in its first branch. On a miss it reads the right neighbour
  (wrapping to the first entry past the last key), takes the iterator before it, and then
  ends: \<open>leftVal\<close> and \<open>leftAng\<close> are declared and the function closes.
\<close>

definition interpolate :: "spline \<Rightarrow> real \<Rightarrow> fault + real" where
  "interpolate spline angle =
     (if map_count spline angle > 0 then
        (case deref spline (map_find spline angle) of
           Inl f \<Rightarrow> Inl f
         | Inr e \<Rightarrow> Inr (snd e))
      else
        let right = upper_bound spline angle in
        (case (if right = map_end spline then deref spline (map_begin spline)
               else deref spline right) of
           Inl f \<Rightarrow> Inl f
         | Inr rightEntry \<Rightarrow>
             (let rightVal = snd rightEntry; rightAng = fst rightEntry in
              case prev_it spline right of
                Inl f \<Rightarrow> Inl f
              | Inr left \<Rightarrow> Inl MissingReturn)))"

subsection \<open>\<open>FinLiftDragPlugin::PreUpdate\<close>\<close>

type_synonym Entity = nat

datatype Vector3d = Vector3d (X: real) (Y: real) (Z: real)

datatype Quaterniond = Quaterniond (qW: real) (qX: real) (qY: real) (qZ: real)

datatype Pose3d = Pose3d (Pos: Vector3d) (Rot: Quaterniond)

text \<open>
  The entity-component manager, as far as these plugins touch it: one partial map per
  component type, the link-by-name lookup of a model, and the world pose that the host's
  \<open>worldPose\<close> utility computes for an entity.
\<close>

record EntityComponentManager =
  AngularVelocity :: "Entity \<rightharpoonup> Vector3d"
  WorldAngularVelocity :: "Entity \<rightharpoonup> Vector3d"
  WorldLinearVelocity :: "Entity \<rightharpoonup> Vector3d"
  WorldPose :: "Entity \<rightharpoonup> Pose3d"
  LinkByName :: "Entity \<Rightarrow> string \<Rightarrow> Entity"
  worldPose :: "Entity \<Rightarrow> Pose3d"

record UpdateInfo =
  simTime :: int   \<comment> \<open>\<open>std::chrono::steady_clock::duration\<close>, in nanoseconds\<close>

record FinLiftDragPrivateData =
  splineCd :: spline
  splineCl :: spline
  linkEntity :: Entity
  model :: Entity
  validConfig :: bool

text \<open>
  Protobuf field names end in an underscore (\<open>depth_\<close>), which a name here cannot; the
  underscore is written as a prime (\<open>depth'\<close>).
\<close>

record LRAUVState =
  stamp_sec :: int
  stamp_nsec :: int
  rph' :: Vector3d
  depth' :: real
  speed' :: real
  latitudeDeg' :: real
  longitudeDeg' :: real
  propOmega' :: real

datatype Publisher = rudderPub | elevatorPub | thrusterPub | statePub

datatype Message = Double (data: real) | State LRAUVState

text \<open>A publication is one call \<open>pub.Publish(msg)\<close>.\<close>

type_synonym Publication = "Publisher \<times> Message"

text \<open>The body of \<open>PreUpdate\<close> is empty.\<close>

definition FinLiftDragPlugin_PreUpdate ::
  "FinLiftDragPrivateData \<Rightarrow> UpdateInfo \<Rightarrow> EntityComponentManager \<Rightarrow>
     FinLiftDragPrivateData \<times> EntityComponentManager \<times> Publication list" where
  "FinLiftDragPlugin_PreUpdate dataPtr info ecm = (dataPtr, ecm, [])"

section \<open>TethysCommPlugin\<close>

record LRAUVCommand =
  propOmegaAction' :: real
  rudderAngleAction' :: real
  elevatorAngleAction' :: real
  massPositionAction' :: real
  buoyancyAction' :: real
  density' :: real
  dt' :: real
  time' :: real

record TethysCommPlugin =
  commandTopic :: string
  stateTopic :: string
  baseLinkName :: string
  thrusterLinkName :: string
  rudderLinkName :: string
  elevatorLinkName :: string
  modelLink :: Entity
  rudderLink :: Entity
  elevatorLink :: Entity
  thrusterLink :: Entity
  prevPubPrintTime :: int   \<comment> \<open>nanoseconds\<close>
  prevSubPrintTime :: int   \<comment> \<open>nanoseconds\<close>

text \<open>
  Functions of the host's mathematics library that the plugins call and whose bodies are
  not part of this repository. They are parameters of the callbacks.
\<close>

record MathLibrary =
  Euler :: "Quaterniond \<Rightarrow> Vector3d"
    \<comment> \<open>\<open>Quaterniond::Euler()\<close>\<close>
  SphericalFromLocalPosition :: "Vector3d \<Rightarrow> Vector3d"
    \<comment> \<open>\<open>sphericalCoords.SphericalFromLocalPosition(v)\<close>\<close>
  QuaterniondRPY :: "real \<Rightarrow> real \<Rightarrow> real \<Rightarrow> Quaterniond"
    \<comment> \<open>the constructor \<open>Quaterniond(roll, pitch, yaw)\<close>\<close>
  EulerToQuaternion :: "real \<Rightarrow> real \<Rightarrow> real \<Rightarrow> Quaterniond"
    \<comment> \<open>\<open>Quaterniond::EulerToQuaternion(x, y, z)\<close>\<close>
  QuaternionMul :: "Quaterniond \<Rightarrow> Quaterniond \<Rightarrow> Quaterniond"
    \<comment> \<open>\<open>operator*\<close> on quaternions\<close>

definition Length :: "Vector3d \<Rightarrow> real" where
  "Length v = sqrt (X v * X v + Y v * Y v + Z v * Z v)"

subsection \<open>Integer conversions and durations\<close>

definition to_int32 :: "int \<Rightarrow> int" where
  \<comment> \<open>narrowing to a 32-bit \<open>int\<close>\<close>
  "to_int32 n = (n + 2 ^ 31) mod 2 ^ 32 - 2 ^ 31"

definition to_int64 :: "int \<Rightarrow> int" where
  "to_int64 n = (n + 2 ^ 63) mod 2 ^ 64 - 2 ^ 63"

definition int_floor :: "real \<Rightarrow> int" where
  \<comment> \<open>\<open>int(floor(x))\<close>; out of the range of \<open>int\<close> the conversion is undefined in C++, and
      the value that x86-64 produces is taken\<close>
  "int_floor x = (if - (2 ^ 31) \<le> \<lfloor>x\<rfloor> \<and> \<lfloor>x\<rfloor> < 2 ^ 31 then \<lfloor>x\<rfloor> else - (2 ^ 31))"

definition truncated_div :: "int \<Rightarrow> int \<Rightarrow> int" where
  \<comment> \<open>C++ integer division rounds toward zero\<close>
  "truncated_div a b = sgn a * sgn b * (\<bar>a\<bar> div \<bar>b\<bar>)"

definition seconds :: "int \<Rightarrow> int" where
  "seconds n = n * 1000000000"

definition milliseconds :: "int \<Rightarrow> int" where
  "milliseconds n = n * 1000000"

definition duration_cast_seconds :: "int \<Rightarrow> int" where
  "duration_cast_seconds ns = truncated_div ns 1000000000"

subsection \<open>\<open>AddAngularVelocityComponent\<close>, \<open>AddWorldPose\<close>, \<open>SetupEntities\<close>\<close>

definition Vector3d_Zero :: Vector3d where
  "Vector3d_Zero = Vector3d 0 0 0"

definition Pose3d_Zero :: Pose3d where
  "Pose3d_Zero = Pose3d Vector3d_Zero (Quaterniond 1 0 0 0)"

definition AddAngularVelocityComponent ::
  "Entity \<Rightarrow> EntityComponentManager \<Rightarrow> EntityComponentManager" where
  "AddAngularVelocityComponent entity ecm =
     (let ecm1 = (if AngularVelocity ecm entity = None
                  then ecm\<lparr>AngularVelocity := (AngularVelocity ecm)(entity \<mapsto> Vector3d_Zero)\<rparr>
                  else ecm)
      in if WorldAngularVelocity ecm1 entity = None
         then ecm1\<lparr>WorldAngularVelocity :=
                     (WorldAngularVelocity ecm1)(entity \<mapsto> Vector3d_Zero)\<rparr>
         else ecm1)"

definition AddWorldPose ::
  "Entity \<Rightarrow> EntityComponentManager \<Rightarrow> EntityComponentManager" where
  "AddWorldPose entity ecm =
     (let ecm1 = (if WorldPose ecm entity = None
                  then ecm\<lparr>WorldPose := (WorldPose ecm)(entity \<mapsto> Pose3d_Zero)\<rparr>
                  else ecm)
      in if WorldPose ecm1 entity = None
         then ecm1\<lparr>WorldPose := (WorldPose ecm1)(entity \<mapsto> Pose3d_Zero)\<rparr>
         else ecm1)"

text \<open>
  The SDF element of a plugin, as far as \<open>HasElement\<close> and \<open>Get<std::string>\<close> read it: a
  partial map from element names to their text. The assignments below are the source's:
  \<open>rudder_link\<close> sets \<open>elevatorLinkName\<close> and \<open>elavator_link\<close> sets \<open>thrusterLinkName\<close>.
\<close>

type_synonym Sdf = "string \<rightharpoonup> string"

definition SetupEntities ::
  "TethysCommPlugin \<Rightarrow> Entity \<Rightarrow> Sdf \<Rightarrow> EntityComponentManager \<Rightarrow>
     TethysCommPlugin \<times> EntityComponentManager" where
  "SetupEntities this entity sdf_elem ecm =
     (let this1 = (case sdf_elem ''model_link'' of
                     Some v \<Rightarrow> this\<lparr>baseLinkName := v\<rparr> | None \<Rightarrow> this);
          this2 = (case sdf_elem ''propeller_link'' of
                     Some v \<Rightarrow> this1\<lparr>thrusterLinkName := v\<rparr> | None \<Rightarrow> this1);
          this3 = (case sdf_elem ''rudder_link'' of
                     Some v \<Rightarrow> this2\<lparr>elevatorLinkName := v\<rparr> | None \<Rightarrow> this2);
          this4 = (case sdf_elem ''elavator_link'' of
                     Some v \<Rightarrow> this3\<lparr>thrusterLinkName := v\<rparr> | None \<Rightarrow> this3);
          this5 = this4\<lparr>modelLink := LinkByName ecm entity (baseLinkName this4),
                        rudderLink := LinkByName ecm entity (rudderLinkName this4),
                        elevatorLink := LinkByName ecm entity (elevatorLinkName this4),
                        thrusterLink := LinkByName ecm entity (thrusterLinkName this4)\<rparr>;
          ecm1 = AddAngularVelocityComponent (thrusterLink this5) ecm;
          ecm2 = AddWorldPose (modelLink this5) ecm1;
          ecm3 = AddWorldPose (rudderLink this5) ecm2;
          ecm4 = AddWorldPose (elevatorLink this5) ecm3
      in (this5, ecm4))"

subsection \<open>\<open>TethysCommPlugin::Configure\<close>\<close>

text \<open>
  \<open>subscribed\<close> is the transport's answer to the subscription. The advertised publishers are
  only checked for an error message, which the model does not record, and
  \<open>SetupControlTopics\<close> changes nothing else.
\<close>

definition TethysCommPlugin_Configure ::
  "bool \<Rightarrow> TethysCommPlugin \<Rightarrow> Entity \<Rightarrow> Sdf \<Rightarrow> EntityComponentManager \<Rightarrow>
     TethysCommPlugin \<times> EntityComponentManager" where
  "TethysCommPlugin_Configure subscribed this entity sdf_elem ecm =
     (let this1 = (case sdf_elem ''command_topic'' of
                     Some v \<Rightarrow> this\<lparr>commandTopic := v\<rparr> | None \<Rightarrow> this);
          this2 = (case sdf_elem ''state_topic'' of
                     Some v \<Rightarrow> this1\<lparr>stateTopic := v\<rparr> | None \<Rightarrow> this1)
      in if \<not> subscribed then (this2, ecm)
         else (let (this3, ecm1) = SetupEntities this2 entity sdf_elem ecm
               in (this3\<lparr>prevPubPrintTime := 0, prevSubPrintTime := 0\<rparr>, ecm1)))"

subsection \<open>\<open>TethysCommPlugin::CommandCallback\<close>\<close>

definition CommandCallback ::
  "TethysCommPlugin \<Rightarrow> LRAUVCommand \<Rightarrow> TethysCommPlugin \<times> Publication list" where
  "CommandCallback this msg =
     (let this1 = (if seconds (int_floor (time' msg)) - prevSubPrintTime this
                        > milliseconds 1000
                   then this\<lparr>prevSubPrintTime := seconds (int_floor (time' msg))\<rparr>
                   else this);
          rudderAngMsg = Double (rudderAngleAction' msg);
          elevatorAngMsg = Double (elevatorAngleAction' msg);
          angVel = propOmegaAction' msg / (60 * 2 * pi);
          force = - 7.879 * 1000 * 0.0016 * angVel * angVel;
          force1 = (if angVel < 0 then force * - 1 else force);
          thrusterMsg = Double force1
      in (this1, [(rudderPub, rudderAngMsg), (elevatorPub, elevatorAngMsg),
                  (thrusterPub, thrusterMsg)]))"

subsection \<open>\<open>TethysCommPlugin::PostUpdate\<close>\<close>

text \<open>
  \<open>Link::WorldLinearVelocity\<close> and \<open>Link::WorldAngularVelocity\<close> return a \<open>std::optional\<close>
  holding the link's component when it has one; \<open>PostUpdate\<close> reads both through
  \<open>operator->\<close> without a test.
\<close>

definition PostUpdate ::
  "MathLibrary \<Rightarrow> TethysCommPlugin \<Rightarrow> UpdateInfo \<Rightarrow> EntityComponentManager \<Rightarrow>
     fault + (TethysCommPlugin \<times> Publication list)" where
  "PostUpdate lib this info ecm =
     (let baseLink = modelLink this;
          model_pose = worldPose ecm (modelLink this);
          sec = duration_cast_seconds (simTime info);
          nsec = to_int32 (to_int64 (to_int32 (simTime info) - to_int64 (sec * 1000000000)));
          rph = Euler lib (Rot model_pose)
      in case WorldLinearVelocity ecm baseLink of
           None \<Rightarrow> Inl EmptyOptional
         | Some linVel \<Rightarrow>
            (let latlon = SphericalFromLocalPosition lib (Pos model_pose);
                 propLink = thrusterLink this
             in case WorldAngularVelocity ecm propLink of
                  None \<Rightarrow> Inl EmptyOptional
                | Some angVel \<Rightarrow>
                   (let prop_omega = Length angVel;
                        stateMsg = \<lparr>stamp_sec = sec, stamp_nsec = nsec, rph' = rph,
                                    depth' = - Z (Pos model_pose), speed' = Length linVel,
                                    latitudeDeg' = X latlon, longitudeDeg' = Y latlon,
                                    propOmega' = prop_omega\<rparr>;
                        this1 = (if simTime info - prevPubPrintTime this > milliseconds 1000
                                 then this\<lparr>prevPubPrintTime := simTime info\<rparr>
                                 else this)
                    in Inr (this1, [(statePub, State stateMsg)]))))"

section \<open>WorldCommPlugin\<close>

subsection \<open>Messages\<close>

record LRAUVInit =
  id' :: "string option"   \<comment> \<open>\<open>has_id_()\<close> and \<open>id_().data()\<close>\<close>
  initLat' :: real
  initLon' :: real
  initZ' :: real
  initPitch' :: real
  initRoll' :: real
  initHeading' :: real
  acommsAddress' :: "32 word"

definition has_id' :: "LRAUVInit \<Rightarrow> bool" where
  "has_id' msg = (id' msg \<noteq> None)"

definition id_data :: "LRAUVInit \<Rightarrow> string" where
  \<comment> \<open>\<open>_msg.id_().data()\<close>: the empty string when the field is absent\<close>
  "id_data msg = (case id' msg of None \<Rightarrow> [] | Some d \<Rightarrow> d)"

datatype SurfaceType = EARTH_WGS84 | MOON_SCS | CUSTOM_SURFACE

record SphericalCoordinates =
  surface_model :: SurfaceType
  latitude_deg :: real
  longitude_deg :: real
  elevation :: real
  heading_deg :: real

definition SphericalCoordinates_new :: SphericalCoordinates where
  \<comment> \<open>a freshly constructed message: every field has its protobuf default\<close>
  "SphericalCoordinates_new =
     \<lparr>surface_model = EARTH_WGS84, latitude_deg = 0, longitude_deg = 0, elevation = 0,
      heading_deg = 0\<rparr>"

record EntityFactory =
  sdf :: string
  spherical_coordinates :: SphericalCoordinates
  pose_orientation :: Quaterniond

definition EntityFactory_new :: EntityFactory where
  "EntityFactory_new =
     \<lparr>sdf = [], spherical_coordinates = SphericalCoordinates_new,
      pose_orientation = Quaterniond 0 0 0 0\<rparr>"

datatype Request =
    SphericalCoordinatesReq SphericalCoordinates
  | EntityFactoryReq EntityFactory
  | StringMsgReq string

text \<open>
  One call \<open>node.Request(service, req, &ServiceResponse, this)\<close>: the service name, the
  request message and the call's result, which says whether the request was issued.
\<close>

datatype ServiceCall = ServiceCall (service: string) (request: Request) (issued: bool)

type_synonym Transport = "string \<Rightarrow> Request \<Rightarrow> bool"

subsection \<open>\<open>WorldCommPlugin::TethysSdfString\<close>\<close>

definition nl :: string where
  "nl = [CHR 0x0A]"

fun to_string :: "nat \<Rightarrow> string" where
  "to_string n =
     (if n < 10 then [''0123456789'' ! n]
      else to_string (n div 10) @ [''0123456789'' ! (n mod 10)])"

definition TethysSdfString :: "LRAUVInit \<Rightarrow> string" where
  \<open>TethysSdfString msg =
     (let ident = id_data msg;
          address = to_string (unat (acommsAddress' msg))
      in concat
        [nl,
         ''  <sdf version="1.9">'', nl,
         ''  <model name="'', ident, ''">'', nl,
         ''    <include merge="true">'', nl,
         nl,
         ''      <!--'', nl,
         ''          Without any extra pose offset, the model is facing West.'', nl,
         ''          For the controller, zero orientation means the robot is facing North.'', nl,
         ''          So we need to rotate it.'', nl,
         ''          Note that this pose is expressed in ENU.'', nl,
         ''      <pose degrees="true">0 0 0  0 0 -90</pose>'', nl,
         ''      -->'', nl,
         nl,
         ''      <!-- rename included model to avoid frame collisions -->'', nl,
         ''      <name>tethys_equipped</name>'', nl,
         nl,
         ''      <uri>tethys_equipped</uri>'', nl,
         nl,
         ''      <experimental:params>'', nl,
         nl,
         ''        <sensor element_id="base_link::salinity_sensor" action="modify">'', nl,
         ''          <topic>/model/'', ident, ''/salinity</topic>'', nl,
         ''        </sensor>'', nl,
         nl,
         ''        <sensor element_id="base_link::temperature_sensor" action="modify">'', nl,
         ''          <topic>/model/'', ident, ''/temperature</topic>'', nl,
         ''        </sensor>'', nl,
         nl,
         ''        <sensor element_id="base_link::chlorophyll_sensor" action="modify">'', nl,
         ''          <topic>/model/'', ident, ''/chlorophyll</topic>'', nl,
         ''        </sensor>'', nl,
         nl,
         ''        <sensor element_id="base_link::current_sensor" action="modify">'', nl,
         ''          <topic>/model/'', ident, ''/current</topic>'', nl,
         ''        </sensor>'', nl,
         nl,
         ''        <sensor element_id="base_link::sparton_ahrs_m2_imu" action="modify">'', nl,
         ''          <topic>/'', ident, ''/ahrs/imu</topic>'', nl,
         ''        </sensor>'', nl,
         nl,
         ''        <sensor element_id="base_link::sparton_ahrs_m2_magnetometer" action="modify">'', nl,
         ''          <topic>/'', ident, ''/ahrs/magnetometer</topic>'', nl,
         ''        </sensor>'', nl,
         nl,
         ''        <sensor element_id="base_link::teledyne_pathfinder_dvl" action="modify">'', nl,
         ''          <topic>/'', ident, ''/dvl/velocity</topic>'', nl,
         ''        </sensor>'', nl,
         nl,
         ''        <plugin element_id="gz::sim::systems::Thruster" action="modify">'', nl,
         ''          <namespace>'', ident, ''</namespace>'', nl,
         ''        </plugin>'', nl,
         nl,
         ''        <plugin element_id="tethys::TethysCommPlugin" action="modify">'', nl,
         ''          <namespace>'', ident, ''</namespace>'', nl,
         ''          <command_topic>'', ident, ''/command_topic</command_topic>'', nl,
         ''          <state_topic>'', ident, ''/state_topic</state_topic>'', nl,
         ''        </plugin>'', nl,
         nl,
         ''        <plugin element_id="gz::sim::systems::BuoyancyEngine" action="modify">'', nl,
         ''          <namespace>'', ident, ''</namespace>'', nl,
         ''        </plugin>'', nl,
         nl,
         ''        <plugin element_id="gz::sim::systems::DetachableJoint" action="modify">'', nl,
         ''          <topic>/model/'', ident, ''/drop_weight</topic>'', nl,
         ''        </plugin>'', nl,
         nl,
         ''        <plugin element_id="gz::sim::systems::CommsEndpoint" action="modify">'', nl,
         ''          <address>'', address, ''</address>'', nl,
         ''          <topic>'', address, ''/rx</topic>'', nl,
         ''        </plugin>'', nl,
         nl,
         ''        <plugin element_id="tethys::RangeBearingPlugin" action="modify">'', nl,
         ''          <address>'', address, ''</address>'', nl,
         ''          <namespace>'', ident, ''</namespace>'', nl,
         ''        </plugin>'', nl,
         nl,
         ''      </experimental:params>'', nl,
         ''    </include>'', nl,
         ''  </model>'', nl,
         ''  </sdf>''])\<close>

subsection \<open>\<open>WorldCommPlugin::Configure\<close>\<close>

record WorldCommPlugin =
  spawnTopic :: string
  createService :: string
  performerService :: string
  setSphericalCoordsService :: string
  hasWorldLatLon :: bool

text \<open>
  What \<open>Configure\<close> asks of the host: the transport's answer to the subscription, the
  world entity of the plugin's entity (\<open>kNullEntity\<close> when there is none), the world's name,
  the topic-name normalisation, and whether the world has spherical coordinates.
\<close>

definition kNullEntity :: Entity where
  "kNullEntity = 0"

record WorldHost =
  Subscribe :: "string \<Rightarrow> bool"
  worldEntity :: Entity
  World_Name :: "string option"
  AsValidTopic :: "string \<Rightarrow> string"
  sphericalCoordinates_has_value :: bool

definition WorldCommPlugin_Configure ::
  "WorldHost \<Rightarrow> Sdf \<Rightarrow> WorldCommPlugin \<Rightarrow> WorldCommPlugin" where
  "WorldCommPlugin_Configure host sdf_elem this =
     (let this1 = (case sdf_elem ''spawn_topic'' of
                     Some v \<Rightarrow> this\<lparr>spawnTopic := v\<rparr> | None \<Rightarrow> this)
      in if \<not> Subscribe host (spawnTopic this1) then this1
         else
           (let worldName =
                  (if kNullEntity \<noteq> worldEntity host
                   then (case World_Name host of Some n \<Rightarrow> n | None \<Rightarrow> [])
                   else [])
            in if worldName = [] then this1
               else
                 (let topicWorldName = AsValidTopic host worldName
                  in if topicWorldName = [] then this1
                     else this1
                       \<lparr>createService := ''/world/'' @ topicWorldName @ ''/create'',
                        performerService :=
                          ''/world/'' @ topicWorldName @ ''/level/set_performer'',
                        setSphericalCoordsService :=
                          ''/world/'' @ topicWorldName @ ''/set_spherical_coordinates'',
                        hasWorldLatLon := sphericalCoordinates_has_value host\<rparr>)))"

subsection \<open>\<open>WorldCommPlugin::SpawnCallback\<close>\<close>

definition SpawnCallback ::
  "MathLibrary \<Rightarrow> Transport \<Rightarrow> WorldCommPlugin \<Rightarrow> LRAUVInit \<Rightarrow>
     WorldCommPlugin \<times> ServiceCall list" where
  "SpawnCallback lib Request this msg =
     (if \<not> has_id' msg then (this, [])
      else
        (let lat = initLat' msg;
             lon = initLon' msg;
             ele = - initZ' msg;
             (this1, calls1) =
               (if \<not> hasWorldLatLon this then
                  (let scReq = SphericalCoordinates_new
                         \<lparr>surface_model := EARTH_WGS84, latitude_deg := lat,
                          longitude_deg := lon, elevation := ele, heading_deg := 0.0\<rparr>;
                       ok = Request (setSphericalCoordsService this)
                              (SphericalCoordinatesReq scReq);
                       call = ServiceCall (setSphericalCoordsService this)
                                (SphericalCoordinatesReq scReq) ok
                   in if \<not> ok then (this, [call])
                      else (this\<lparr>hasWorldLatLon := True\<rparr>, [call]))
                else (this, []));
             coords = SphericalCoordinates_new
                        \<lparr>surface_model := EARTH_WGS84, latitude_deg := lat,
                         longitude_deg := lon, elevation := ele\<rparr>;
             factoryReq0 = EntityFactory_new
                        \<lparr>sdf := TethysSdfString msg, spherical_coordinates := coords,
                         pose_orientation :=
                           QuaterniondRPY lib (initRoll' msg) (initPitch' msg)
                             (initHeading' msg)\<rparr>;
             rotENU = EulerToQuaternion lib (initPitch' msg) (initRoll' msg)
                        (- initHeading' msg);
             rotRobot = QuaternionMul lib (QuaterniondRPY lib 0.0 0.0 (- pi * 0.5)) rotENU;
             factoryReq = factoryReq0\<lparr>pose_orientation := rotRobot\<rparr>;
             okCreate = Request (createService this1) (EntityFactoryReq factoryReq);
             calls2 = [ServiceCall (createService this1) (EntityFactoryReq factoryReq)
                         okCreate];
             calls3 =
               (if \<not> okCreate then []
                else (let performerReq = StringMsgReq (id_data msg)
                      in [ServiceCall (performerService this1) performerReq
                            (Request (performerService this1) performerReq)]))
         in (this1, calls1 @ calls2 @ calls3)))"

text \<open>
  The transport delivers spawn messages to the callback one after the other; each
  delivery meets its own transport answers. \<open>SpawnCallbacks\<close> runs the callback over a
  sequence of deliveries and collects the service calls in order.
\<close>

fun SpawnCallbacks ::
  "MathLibrary \<Rightarrow> WorldCommPlugin \<Rightarrow> (Transport \<times> LRAUVInit) list \<Rightarrow>
     WorldCommPlugin \<times> ServiceCall list" where
  "SpawnCallbacks lib this [] = (this, [])"
| "SpawnCallbacks lib this (d # ds) =
     (let (this1, calls) = SpawnCallback lib (fst d) this (snd d);
          (this2, calls') = SpawnCallbacks lib this1 ds
      in (this2, calls @ calls'))"

text \<open>The calls of a trace that ask for the world origin to be set.\<close>

fun is_origin_request :: "ServiceCall \<Rightarrow> bool" where
  "is_origin_request (ServiceCall s (SphericalCoordinatesReq r) ok) = True"
| "is_origin_request (ServiceCall s (EntityFactoryReq r) ok) = False"
| "is_origin_request (ServiceCall s (StringMsgReq r) ok) = False"

definition origin_requests :: "ServiceCall list \<Rightarrow> ServiceCall list" where
  "origin_requests calls = filter is_origin_request calls"

text \<open>
  A delivery whose world-origin request would be issued from the state \<open>this\<close>: the message
  has an ID and the delivery's transport accepts the request built from it.
\<close>

definition accepted :: "WorldCommPlugin \<Rightarrow> Transport \<times> LRAUVInit \<Rightarrow> bool" where
  "accepted this d =
     (has_id' (snd d) \<and>
      fst d (setSphericalCoordsService this)
        (SphericalCoordinatesReq
           \<lparr>surface_model = EARTH_WGS84, latitude_deg = initLat' (snd d),
            longitude_deg = initLon' (snd d), elevation = - initZ' (snd d),
            heading_deg = 0\<rparr>))"

subsection \<open>What a trace of publications holds for one publisher\<close>

definition published_on :: "Publisher \<Rightarrow> Publication list \<Rightarrow> Message list" where
  "published_on pub ps = map snd (filter (\<lambda>p. fst p = pub) ps)"

section \<open>Sample inputs\<close>

text \<open>
  Concrete values on which the theorems below are instantiated. \<open>sample_lib\<close> stands in for
  the mathematics library there; no general theorem depends on what it returns.
\<close>

definition sample_lib :: MathLibrary where
  "sample_lib =
     \<lparr>Euler = (\<lambda>q. Vector3d 0 0 0), SphericalFromLocalPosition = (\<lambda>v. v),
      QuaterniondRPY = (\<lambda>r p y. Quaterniond 1 0 0 0),
      EulerToQuaternion = (\<lambda>x y z. Quaterniond 1 0 0 0), QuaternionMul = (\<lambda>a b. b)\<rparr>"

definition sample_tethys :: TethysCommPlugin where
  "sample_tethys =
     \<lparr>commandTopic = ''command_topic'', stateTopic = ''state_topic'',
      baseLinkName = ''base_link'', thrusterLinkName = ''propeller'',
      rudderLinkName = ''vertical_fins'', elevatorLinkName = ''horizontal_fins'',
      modelLink = 1, rudderLink = 2, elevatorLink = 3, thrusterLink = 4,
      prevPubPrintTime = 0, prevSubPrintTime = 0\<rparr>"

definition sample_command :: "real \<Rightarrow> LRAUVCommand" where
  "sample_command omega =
     \<lparr>propOmegaAction' = omega, rudderAngleAction' = 0.1, elevatorAngleAction' = - 0.2,
      massPositionAction' = 0, buoyancyAction' = 0, density' = 1025, dt' = 0.02, time' = 3\<rparr>"

definition sample_world :: WorldCommPlugin where
  "sample_world =
     \<lparr>spawnTopic = ''lrauv/init'', createService = ''/world/w/create'',
      performerService = ''/world/w/level/set_performer'',
      setSphericalCoordsService = ''/world/w/set_spherical_coordinates'',
      hasWorldLatLon = False\<rparr>"

definition sample_init :: "string option \<Rightarrow> real \<Rightarrow> LRAUVInit" where
  "sample_init i lat =
     \<lparr>id' = i, initLat' = lat, initLon' = - 122, initZ' = 10, initPitch' = 0,
      initRoll' = 0, initHeading' = 0, acommsAddress' = 7\<rparr>"

text \<open>A transport that refuses the world-origin request and issues every other one.\<close>

fun refuse_origin :: Transport where
  "refuse_origin s (SphericalCoordinatesReq r) = False"
| "refuse_origin s (EntityFactoryReq r) = True"
| "refuse_origin s (StringMsgReq r) = True"

definition sample_deliveries :: "(Transport \<times> LRAUVInit) list" where
  "sample_deliveries =
     [(refuse_origin, sample_init (Some ''tethys1'') 35),
      ((\<lambda>s r. True), sample_init (Some ''tethys2'') 36),
      ((\<lambda>s r. True), sample_init (Some ''tethys3'') 37)]"

section \<open>Properties of FinLiftDragPlugin\<close>

lemma map_count_pos_iff: "0 < map_count s k \<longleftrightarrow> k \<in> fst ` set s"
  by (induction s) (auto simp: map_count_def)

lemma map_find_less: "k \<in> fst ` set s \<Longrightarrow> map_find s k < length s"
  by (induction s) auto

lemma map_find_key: "k \<in> fst ` set s \<Longrightarrow> fst (s ! map_find s k) = k"
  by (induction s) auto

lemma is_map_distinct: "is_map s \<Longrightarrow> distinct (map fst s)"
  by (simp add: is_map_def strict_sorted_iff)

lemma unique_entry:
  assumes "distinct (map fst s)" and "(k, v) \<in> set s" and "(k, w) \<in> set s"
  shows "v = w"
  using assms by (meson eq_key_imp_eq_value)

text \<open>The only way out of \<open>interpolate\<close> with a value is an exact hit.\<close>

lemma interpolate_returns_only_hits:
  assumes "interpolate s a = Inr v"
  shows "(a, v) \<in> set s"
proof -
  have hit: "0 < map_count s a"
    using assms by (auto simp: interpolate_def Let_def split: if_splits sum.splits)
  then have mem: "a \<in> fst ` set s" by (simp add: map_count_pos_iff)
  have lt: "map_find s a < length s" using mem by (rule map_find_less)
  have "v = snd (s ! map_find s a)"
    using assms hit lt by (simp add: interpolate_def deref_def)
  moreover have "fst (s ! map_find s a) = a" using mem by (rule map_find_key)
  ultimately have "s ! map_find s a = (a, v)" by (simp add: prod_eq_iff)
  then show ?thesis using lt by (metis nth_mem)
qed

text \<open>
  C6. For a non-empty table, the claim is that \<open>interpolate\<close> returns a value at every
  query angle. The code returns nothing on a miss: at the table \<open>{0 \<mapsto> 1, 10 \<mapsto> 2}\<close> the
  query 5 (strictly between two tabulated angles) and the query 20 (past the last one,
  the wrap-around case) both run to the end of the function without a \<open>return\<close>, and the
  query -5 (before the first angle) steps an iterator before \<open>begin()\<close>.
\<close>

theorem interpolate_miss_has_no_value:
  "is_map [(0, 1), (10, 2)] \<and>
   interpolate [(0, 1), (10, 2)] 5 = Inl MissingReturn \<and>
   interpolate [(0, 1), (10, 2)] 20 = Inl MissingReturn \<and>
   interpolate [(0, 1), (10, 2)] (-5) = Inl PrevOfBegin"
  by (simp add: is_map_def interpolate_def map_count_def map_end_def map_begin_def
      deref_def prev_it_def)

text \<open>
  C7. When the query angle is one of the tabulated angles, \<open>interpolate\<close> returns the
  coefficient stored for it.
\<close>

theorem interpolate_exact_hit:
  assumes "is_map s" and "(a, c) \<in> set s"
  shows "interpolate s a = Inr c"
proof -
  have mem: "a \<in> fst ` set s" using assms(2) by force
  have lt: "map_find s a < length s" using mem by (rule map_find_less)
  have key: "fst (s ! map_find s a) = a" using mem by (rule map_find_key)
  have stored: "(a, snd (s ! map_find s a)) \<in> set s"
    using lt key by (metis nth_mem prod.collapse)
  have "snd (s ! map_find s a) = c"
    by (rule unique_entry [OF is_map_distinct [OF assms(1)] stored assms(2)])
  then show ?thesis
    using mem lt by (simp add: interpolate_def map_count_pos_iff deref_def)
qed

theorem interpolate_exact_hit_witness:
  "is_map [(0, 1), (10, 2)] \<and> (10, 2) \<in> set [(0 :: real, 1 :: real), (10, 2)] \<and>
   interpolate [(0, 1), (10, 2)] 10 = Inr 2"
proof -
  have m: "is_map [(0::real, 1::real), (10, 2)]" by (simp add: is_map_def)
  have e: "(10::real, 2::real) \<in> set [(0, 1), (10, 2)]" by simp
  show ?thesis using m e interpolate_exact_hit [OF m e] by simp
qed

text \<open>
  C8. \<open>FinLiftDragPlugin::PreUpdate\<close> leaves the plugin's data and the entity-component
  state as they were and publishes nothing, whatever the step information and the state.
\<close>

theorem FinLiftDragPlugin_PreUpdate_no_effect:
  "FinLiftDragPlugin_PreUpdate dataPtr info ecm = (dataPtr, ecm, [])"
  by (simp add: FinLiftDragPlugin_PreUpdate_def)

section \<open>Properties of TethysCommPlugin\<close>

text \<open>
  C4. For every command, \<open>CommandCallback\<close> publishes on the rudder publisher one
  \<open>Double\<close> whose data is the command's \<open>rudderAngleAction_\<close>, and on the elevator
  publisher one \<open>Double\<close> whose data is the command's \<open>elevatorAngleAction_\<close>.
\<close>

theorem CommandCallback_rudder_elevator:
  "published_on rudderPub (snd (CommandCallback this msg))
     = [Double (rudderAngleAction' msg)] \<and>
   published_on elevatorPub (snd (CommandCallback this msg))
     = [Double (elevatorAngleAction' msg)]"
  by (simp add: CommandCallback_def Let_def published_on_def)

text \<open>
  C9. With \<open>a = propOmegaAction_ / (60 * 2 * pi)\<close>, the value published on the thruster
  publisher is \<open>- 7.879 * 1000 * 0.0016 * a\<^sup>2\<close> when \<open>a \<ge> 0\<close> and
  \<open>7.879 * 1000 * 0.0016 * a\<^sup>2\<close> when \<open>a < 0\<close>; a positive commanded speed gives a force
  that is not positive.
\<close>

theorem CommandCallback_thruster:
  assumes "a = propOmegaAction' msg / (60 * 2 * pi)"
  shows "(0 \<le> a \<longrightarrow> published_on thrusterPub (snd (CommandCallback this msg))
                    = [Double (- 7.879 * 1000 * 0.0016 * a\<^sup>2)]) \<and>
         (a < 0 \<longrightarrow> published_on thrusterPub (snd (CommandCallback this msg))
                    = [Double (7.879 * 1000 * 0.0016 * a\<^sup>2)]) \<and>
         (0 < propOmegaAction' msg \<longrightarrow>
            (\<exists>force. published_on thrusterPub (snd (CommandCallback this msg))
                       = [Double force] \<and> force \<le> 0))"
proof -
  have out: "published_on thrusterPub (snd (CommandCallback this msg))
      = [Double (if a < 0 then - 7.879 * 1000 * 0.0016 * a * a * - 1
                 else - 7.879 * 1000 * 0.0016 * a * a)]"
    by (simp add: CommandCallback_def Let_def published_on_def assms)
  have nonneg: "0 \<le> a\<^sup>2" by simp
  have pos: "0 < propOmegaAction' msg \<Longrightarrow> 0 \<le> a"
    using assms by simp
  show ?thesis
    using out nonneg pos by (auto simp: power2_eq_square)
qed

theorem CommandCallback_thruster_witness:
  "(0::real) \<le> 120 / (60 * 2 * pi) \<and> - 120 / (60 * 2 * pi) < (0::real) \<and>
   (0::real) < propOmegaAction' (sample_command 120) \<and>
   published_on thrusterPub (snd (CommandCallback sample_tethys (sample_command 120)))
     = [Double (- 7.879 * 1000 * 0.0016 * (120 / (60 * 2 * pi))\<^sup>2)] \<and>
   published_on thrusterPub (snd (CommandCallback sample_tethys (sample_command (- 120))))
     = [Double (7.879 * 1000 * 0.0016 * (- 120 / (60 * 2 * pi))\<^sup>2)] \<and>
   (\<exists>force. published_on thrusterPub
               (snd (CommandCallback sample_tethys (sample_command 120))) = [Double force]
            \<and> force \<le> 0)"
proof -
  have a1: "120 / (60 * 2 * pi) = propOmegaAction' (sample_command 120) / (60 * 2 * pi)"
    by (simp add: sample_command_def)
  have a2: "- 120 / (60 * 2 * pi)
      = propOmegaAction' (sample_command (- 120)) / (60 * 2 * pi)"
    by (simp add: sample_command_def)
  have p1: "(0::real) \<le> 120 / (60 * 2 * pi)" by simp
  have p2: "- 120 / (60 * 2 * pi) < (0::real)" by simp
  have p3: "0 < propOmegaAction' (sample_command 120)" by (simp add: sample_command_def)
  show ?thesis
    using CommandCallback_thruster [OF a1, of sample_tethys]
      CommandCallback_thruster [OF a2, of sample_tethys] p1 p2 p3
    by simp
qed

subsection \<open>\<open>PostUpdate\<close> and the components \<open>Configure\<close> creates\<close>

lemma AddAngularVelocityComponent_WorldLinearVelocity:
  "WorldLinearVelocity (AddAngularVelocityComponent e ecm) = WorldLinearVelocity ecm"
  by (simp add: AddAngularVelocityComponent_def Let_def)

lemma AddWorldPose_WorldLinearVelocity:
  "WorldLinearVelocity (AddWorldPose e ecm) = WorldLinearVelocity ecm"
  by (simp add: AddWorldPose_def Let_def)

lemma AddAngularVelocityComponent_creates:
  "WorldAngularVelocity (AddAngularVelocityComponent e ecm) e \<noteq> None"
  by (simp add: AddAngularVelocityComponent_def Let_def)

lemma SetupEntities_WorldLinearVelocity:
  "WorldLinearVelocity (snd (SetupEntities this e el ecm)) = WorldLinearVelocity ecm"
  by (simp add: SetupEntities_def Let_def AddAngularVelocityComponent_WorldLinearVelocity
      AddWorldPose_WorldLinearVelocity)

lemma Configure_WorldLinearVelocity:
  "WorldLinearVelocity (snd (TethysCommPlugin_Configure sub this e el ecm))
     = WorldLinearVelocity ecm"
  by (simp add: TethysCommPlugin_Configure_def Let_def split_beta
      SetupEntities_WorldLinearVelocity)

lemma PostUpdate_needs_linear_velocity:
  "WorldLinearVelocity ecm (modelLink this) = None \<Longrightarrow>
     PostUpdate lib this info ecm = Inl EmptyOptional"
  by (simp add: PostUpdate_def Let_def)

text \<open>
  When the base link has a world linear velocity and the propeller link a world angular
  velocity, \<open>PostUpdate\<close> publishes one state message with the four fields as described.
\<close>

lemma PostUpdate_publishes_state:
  assumes "WorldLinearVelocity ecm (modelLink this) = Some linVel"
    and "WorldAngularVelocity ecm (thrusterLink this) = Some angVel"
  shows "\<exists>this' st. PostUpdate lib this info ecm = Inr (this', [(statePub, State st)]) \<and>
           depth' st = - Z (Pos (worldPose ecm (modelLink this))) \<and>
           rph' st = Euler lib (Rot (worldPose ecm (modelLink this))) \<and>
           speed' st = Length linVel \<and> propOmega' st = Length angVel"
  using assms by (simp add: PostUpdate_def Let_def)

text \<open>
  C5. The claim is that every invocation of \<open>PostUpdate\<close> publishes one state message
  whose \<open>speed_\<close> is the norm of the base link's world linear velocity. \<open>PostUpdate\<close> reads
  that velocity through an unchecked \<open>std::optional\<close>, and \<open>Configure\<close> creates the angular
  velocity components of the propeller link and the world pose components, but no linear
  velocity component: started on an entity-component state without such components,
  \<open>Configure\<close> followed by \<open>PostUpdate\<close> reads an empty optional and publishes no message.
\<close>

theorem PostUpdate_after_Configure_reads_empty_optional:
  "PostUpdate lib
     (fst (TethysCommPlugin_Configure sub this e el (ecm\<lparr>WorldLinearVelocity := Map.empty\<rparr>)))
     info
     (snd (TethysCommPlugin_Configure sub this e el (ecm\<lparr>WorldLinearVelocity := Map.empty\<rparr>)))
   = Inl EmptyOptional"
  by (rule PostUpdate_needs_linear_velocity) (simp add: Configure_WorldLinearVelocity)

section \<open>Properties of WorldCommPlugin\<close>

subsection \<open>One delivery\<close>

lemma origin_requests_append:
  "origin_requests (xs @ ys) = origin_requests xs @ origin_requests ys"
  by (simp add: origin_requests_def)

text \<open>
  The world-origin requests of one delivery, and the plugin's variables after it: a
  request is made when the message has an ID and \<open>hasWorldLatLon\<close> is false, and the flag is
  set when that request was issued.
\<close>

lemma SpawnCallback_origin_requests:
  "origin_requests (snd (SpawnCallback lib Request this msg)) =
     (if has_id' msg \<and> \<not> hasWorldLatLon this
      then [ServiceCall (setSphericalCoordsService this)
              (SphericalCoordinatesReq
                 \<lparr>surface_model = EARTH_WGS84, latitude_deg = initLat' msg,
                  longitude_deg = initLon' msg, elevation = - initZ' msg,
                  heading_deg = 0\<rparr>)
              (Request (setSphericalCoordsService this)
                 (SphericalCoordinatesReq
                    \<lparr>surface_model = EARTH_WGS84, latitude_deg = initLat' msg,
                     longitude_deg = initLon' msg, elevation = - initZ' msg,
                     heading_deg = 0\<rparr>))]
      else [])"
  by (simp add: SpawnCallback_def Let_def split_beta origin_requests_def
      SphericalCoordinates_new_def)

lemma SpawnCallback_state:
  "fst (SpawnCallback lib Request this msg) =
     (if has_id' msg \<and> \<not> hasWorldLatLon this \<and>
         Request (setSphericalCoordsService this)
           (SphericalCoordinatesReq
              \<lparr>surface_model = EARTH_WGS84, latitude_deg = initLat' msg,
               longitude_deg = initLon' msg, elevation = - initZ' msg, heading_deg = 0\<rparr>)
      then this\<lparr>hasWorldLatLon := True\<rparr> else this)"
  by (simp add: SpawnCallback_def Let_def split_beta SphericalCoordinates_new_def)

lemma SpawnCallback_origin_set:
  assumes "hasWorldLatLon this"
  shows "fst (SpawnCallback lib Request this msg) = this \<and>
         origin_requests (snd (SpawnCallback lib Request this msg)) = []"
  using assms by (simp add: SpawnCallback_state SpawnCallback_origin_requests)

lemma SpawnCallback_flag:
  "hasWorldLatLon (fst (SpawnCallback lib Request this msg)) =
     (hasWorldLatLon this \<or>
      (\<exists>c \<in> set (origin_requests (snd (SpawnCallback lib Request this msg))). issued c))"
  by (auto simp add: SpawnCallback_state SpawnCallback_origin_requests)

lemma SpawnCallback_origin_cases:
  "origin_requests (snd (SpawnCallback lib Request this msg)) = [] \<or>
   (\<exists>c. origin_requests (snd (SpawnCallback lib Request this msg)) = [c])"
  by (simp add: SpawnCallback_origin_requests)

subsection \<open>A sequence of deliveries\<close>

lemma SpawnCallbacks_Cons_state:
  "fst (SpawnCallbacks lib this (d # ds))
     = fst (SpawnCallbacks lib (fst (SpawnCallback lib (fst d) this (snd d))) ds)"
  by (simp add: split_beta Let_def)

lemma SpawnCallbacks_Cons_origin_requests:
  "origin_requests (snd (SpawnCallbacks lib this (d # ds)))
     = origin_requests (snd (SpawnCallback lib (fst d) this (snd d)))
       @ origin_requests
           (snd (SpawnCallbacks lib (fst (SpawnCallback lib (fst d) this (snd d))) ds))"
  by (simp add: split_beta Let_def origin_requests_append)

lemma SpawnCallbacks_Nil_origin_requests:
  "origin_requests (snd (SpawnCallbacks lib this [])) = []"
  by (simp add: origin_requests_def)

lemma SpawnCallbacks_origin_set:
  "hasWorldLatLon this \<Longrightarrow>
     fst (SpawnCallbacks lib this ds) = this \<and>
     origin_requests (snd (SpawnCallbacks lib this ds)) = []"
proof (induction ds)
  case Nil
  then show ?case by (simp add: origin_requests_def)
next
  case (Cons d ds)
  then show ?case
    using SpawnCallback_origin_set [of this lib "fst d" "snd d"]
    by (simp add: SpawnCallbacks_Cons_state SpawnCallbacks_Cons_origin_requests
        del: SpawnCallbacks.simps)
qed

lemma SpawnCallbacks_flag:
  "hasWorldLatLon (fst (SpawnCallbacks lib this ds)) =
    (hasWorldLatLon this \<or>
     (\<exists>c \<in> set (origin_requests (snd (SpawnCallbacks lib this ds))). issued c))"
proof (induction ds arbitrary: this)
  case Nil
  then show ?case by (simp add: origin_requests_def)
next
  case (Cons d ds)
  show ?case
    using Cons.IH [of "fst (SpawnCallback lib (fst d) this (snd d))"]
      SpawnCallback_flag [of lib "fst d" this "snd d"]
    by (auto simp add: SpawnCallbacks_Cons_state SpawnCallbacks_Cons_origin_requests
        simp del: SpawnCallbacks.simps)
qed

text \<open>An issued world-origin request is the last world-origin request of the trace.\<close>

lemma SpawnCallbacks_issued_last:
  "\<forall>c \<in> set (butlast (origin_requests (snd (SpawnCallbacks lib this ds)))). \<not> issued c"
proof (induction ds arbitrary: this)
  case Nil
  then show ?case by (simp add: origin_requests_def)
next
  case (Cons d ds)
  let ?step = "SpawnCallback lib (fst d) this (snd d)"
  let ?rest = "SpawnCallbacks lib (fst ?step) ds"
  note trace = SpawnCallbacks_Cons_origin_requests [of lib this d ds]
  from SpawnCallback_origin_cases [of lib "fst d" this "snd d"]
  show ?case
  proof
    assume "origin_requests (snd ?step) = []"
    then show ?thesis using trace Cons.IH [of "fst ?step"] by simp
  next
    assume "\<exists>c. origin_requests (snd ?step) = [c]"
    then obtain c where c: "origin_requests (snd ?step) = [c]" by blast
    show ?thesis
    proof (cases "issued c")
      case True
      then have "hasWorldLatLon (fst ?step)"
        using SpawnCallback_flag [of lib "fst d" this "snd d"] c by simp
      then have "origin_requests (snd ?rest) = []"
        using SpawnCallbacks_origin_set by blast
      then show ?thesis using trace c by simp
    next
      case False
      then show ?thesis
        using trace c Cons.IH [of "fst ?step"] by (simp add: butlast_append)
    qed
  qed
qed

lemma at_most_one_before_last:
  assumes "\<forall>c \<in> set (butlast xs). \<not> P c"
  shows "length (filter P xs) \<le> 1"
proof (cases xs rule: rev_cases)
  case Nil
  then show ?thesis by simp
next
  case (snoc ys y)
  then have "filter P ys = []" using assms by (simp add: filter_empty_conv)
  then show ?thesis using snoc by simp
qed

text \<open>
  The service name is not changed by a delivery, so the deliveries that would be accepted
  are the same before and after it.
\<close>

lemma SpawnCallback_accepted:
  "accepted (fst (SpawnCallback lib Request this msg)) = accepted this"
  by (rule ext) (simp add: SpawnCallback_state accepted_def)

text \<open>
  Started with \<open>hasWorldLatLon\<close> false, the issued world-origin request is the one built
  from the first delivery that is accepted; when no delivery is accepted, none is issued.
\<close>

lemma SpawnCallbacks_issued_origin:
  "\<not> hasWorldLatLon this \<Longrightarrow>
     filter issued (origin_requests (snd (SpawnCallbacks lib this ds))) =
       (case find (accepted this) ds of
          None \<Rightarrow> []
        | Some d \<Rightarrow>
            [ServiceCall (setSphericalCoordsService this)
               (SphericalCoordinatesReq
                  \<lparr>surface_model = EARTH_WGS84, latitude_deg = initLat' (snd d),
                   longitude_deg = initLon' (snd d), elevation = - initZ' (snd d),
                   heading_deg = 0\<rparr>) True])"
proof (induction ds arbitrary: this)
  case Nil
  then show ?case by (simp add: origin_requests_def)
next
  case (Cons d ds)
  let ?step = "SpawnCallback lib (fst d) this (snd d)"
  note trace = SpawnCallbacks_Cons_origin_requests [of lib this d ds]
  show ?case
  proof (cases "accepted this d")
    case True
    then have step: "origin_requests (snd ?step) =
        [ServiceCall (setSphericalCoordsService this)
           (SphericalCoordinatesReq
              \<lparr>surface_model = EARTH_WGS84, latitude_deg = initLat' (snd d),
               longitude_deg = initLon' (snd d), elevation = - initZ' (snd d),
               heading_deg = 0\<rparr>) True]"
      using Cons.prems by (simp add: SpawnCallback_origin_requests accepted_def)
    have "hasWorldLatLon (fst ?step)"
      using True Cons.prems by (simp add: SpawnCallback_state accepted_def)
    then have "origin_requests (snd (SpawnCallbacks lib (fst ?step) ds)) = []"
      using SpawnCallbacks_origin_set by blast
    then show ?thesis using trace step True by simp
  next
    case False
    then have state: "fst ?step = this"
      using Cons.prems by (auto simp add: SpawnCallback_state accepted_def)
    have step: "filter issued (origin_requests (snd ?step)) = []"
      using False Cons.prems by (auto simp add: SpawnCallback_origin_requests accepted_def)
    show ?thesis
      using trace state step False Cons.IH [OF Cons.prems] by simp
  qed
qed

text \<open>
  C2. The claim as stated, that the world-origin service is requested at most once and
  that the origin is the first spawned vehicle's, fails when the transport refuses a
  request: the refusal leaves \<open>hasWorldLatLon\<close> false, the vehicle is created all the same,
  and the next spawn message requests again. On \<open>sample_deliveries\<close> two world-origin
  requests are made, the first vehicle is created and registered as a performer, and the
  request that is issued carries the second vehicle's coordinates.
\<close>

theorem world_origin_requested_twice:
  "\<not> length (origin_requests
        (snd (SpawnCallbacks sample_lib sample_world sample_deliveries))) \<le> 1 \<and>
   origin_requests (snd (SpawnCallbacks sample_lib sample_world sample_deliveries)) =
     [ServiceCall ''/world/w/set_spherical_coordinates''
        (SphericalCoordinatesReq
           \<lparr>surface_model = EARTH_WGS84, latitude_deg = 35, longitude_deg = - 122,
            elevation = - 10, heading_deg = 0\<rparr>) False,
      ServiceCall ''/world/w/set_spherical_coordinates''
        (SphericalCoordinatesReq
           \<lparr>surface_model = EARTH_WGS84, latitude_deg = 36, longitude_deg = - 122,
            elevation = - 10, heading_deg = 0\<rparr>) True] \<and>
   ServiceCall ''/world/w/level/set_performer'' (StringMsgReq ''tethys1'') True
     \<in> set (snd (SpawnCallback sample_lib refuse_origin sample_world
                   (sample_init (Some ''tethys1'') 35))) \<and>
   set (snd (SpawnCallback sample_lib refuse_origin sample_world
               (sample_init (Some ''tethys1'') 35)))
     \<subseteq> set (snd (SpawnCallbacks sample_lib sample_world sample_deliveries))"
proof -
  have trace: "origin_requests (snd (SpawnCallbacks sample_lib sample_world sample_deliveries)) =
     [ServiceCall ''/world/w/set_spherical_coordinates''
        (SphericalCoordinatesReq
           \<lparr>surface_model = EARTH_WGS84, latitude_deg = 35, longitude_deg = - 122,
            elevation = - 10, heading_deg = 0\<rparr>) False,
      ServiceCall ''/world/w/set_spherical_coordinates''
        (SphericalCoordinatesReq
           \<lparr>surface_model = EARTH_WGS84, latitude_deg = 36, longitude_deg = - 122,
            elevation = - 10, heading_deg = 0\<rparr>) True]"
    by (simp add: sample_deliveries_def sample_world_def sample_init_def has_id'_def
        SpawnCallbacks_Cons_state SpawnCallbacks_Cons_origin_requests
        SpawnCallbacks_Nil_origin_requests SpawnCallback_state SpawnCallback_origin_requests
        del: SpawnCallbacks.simps)
  have performer:
    "ServiceCall ''/world/w/level/set_performer'' (StringMsgReq ''tethys1'') True
       \<in> set (snd (SpawnCallback sample_lib refuse_origin sample_world
                     (sample_init (Some ''tethys1'') 35)))"
    by (simp add: SpawnCallback_def Let_def split_beta has_id'_def id_data_def
        sample_world_def sample_init_def)
  have first: "set (snd (SpawnCallback sample_lib refuse_origin sample_world
               (sample_init (Some ''tethys1'') 35)))
     \<subseteq> set (snd (SpawnCallbacks sample_lib sample_world sample_deliveries))"
    by (simp add: sample_deliveries_def split_beta Let_def)
  show ?thesis using trace performer first by simp
qed

text \<open>
  C2, as the code has it. Over every sequence of spawn messages, started from any plugin
  state: at most one world-origin request is issued (\<open>node.Request\<close> returns true for at
  most one); an issued one is the last world-origin request that is made at all; none is
  made once \<open>hasWorldLatLon\<close> is true, and the plugin's variables then stay as they are; an
  issued request leaves \<open>hasWorldLatLon\<close> true; and, started with \<open>hasWorldLatLon\<close> false,
  the issued request is the one built from the first spawn message that has an ID and
  whose request the transport accepts.
\<close>

theorem world_origin_issued_at_most_once:
  assumes "SpawnCallbacks lib this deliveries = (this', calls)"
  shows "length (filter issued (origin_requests calls)) \<le> 1 \<and>
         (\<forall>c \<in> set (butlast (origin_requests calls)). \<not> issued c) \<and>
         (hasWorldLatLon this \<longrightarrow> origin_requests calls = [] \<and> this' = this) \<and>
         ((\<exists>c \<in> set (origin_requests calls). issued c) \<longrightarrow> hasWorldLatLon this') \<and>
         (\<not> hasWorldLatLon this \<longrightarrow>
            filter issued (origin_requests calls) =
              (case find (accepted this) deliveries of
                 None \<Rightarrow> []
               | Some d \<Rightarrow>
                   [ServiceCall (setSphericalCoordsService this)
                      (SphericalCoordinatesReq
                         \<lparr>surface_model = EARTH_WGS84, latitude_deg = initLat' (snd d),
                          longitude_deg = initLon' (snd d), elevation = - initZ' (snd d),
                          heading_deg = 0\<rparr>) True]))"
proof -
  have calls: "calls = snd (SpawnCallbacks lib this deliveries)"
    and this': "this' = fst (SpawnCallbacks lib this deliveries)"
    using assms by simp_all
  have last: "\<forall>c \<in> set (butlast (origin_requests calls)). \<not> issued c"
    unfolding calls by (rule SpawnCallbacks_issued_last)
  have once: "length (filter issued (origin_requests calls)) \<le> 1"
    using last by (rule at_most_one_before_last)
  have stays: "hasWorldLatLon this \<longrightarrow> origin_requests calls = [] \<and> this' = this"
    unfolding calls this' using SpawnCallbacks_origin_set by blast
  have sets: "(\<exists>c \<in> set (origin_requests calls). issued c) \<longrightarrow> hasWorldLatLon this'"
    unfolding calls this' using SpawnCallbacks_flag by blast
  have first: "\<not> hasWorldLatLon this \<longrightarrow>
            filter issued (origin_requests calls) =
              (case find (accepted this) deliveries of
                 None \<Rightarrow> []
               | Some d \<Rightarrow>
                   [ServiceCall (setSphericalCoordsService this)
                      (SphericalCoordinatesReq
                         \<lparr>surface_model = EARTH_WGS84, latitude_deg = initLat' (snd d),
                          longitude_deg = initLon' (snd d), elevation = - initZ' (snd d),
                          heading_deg = 0\<rparr>) True])"
    unfolding calls using SpawnCallbacks_issued_origin by blast
  show ?thesis using once last stays sets first by blast
qed

text \<open>
  C3. For a spawn message with an ID, received while \<open>hasWorldLatLon\<close> is false, the
  world-origin request of \<open>SpawnCallback\<close> goes to the spherical-coordinates service with
  surface model \<open>EARTH_WGS84\<close>, the message's latitude and longitude, the negated depth as
  elevation and heading 0.
\<close>

theorem SpawnCallback_origin_request_fields:
  assumes "id' msg = Some ident" and "\<not> hasWorldLatLon this"
  shows "origin_requests (snd (SpawnCallback lib Request this msg)) =
           [ServiceCall (setSphericalCoordsService this)
              (SphericalCoordinatesReq
                 \<lparr>surface_model = EARTH_WGS84, latitude_deg = initLat' msg,
                  longitude_deg = initLon' msg, elevation = - initZ' msg,
                  heading_deg = 0\<rparr>)
              (Request (setSphericalCoordsService this)
                 (SphericalCoordinatesReq
                    \<lparr>surface_model = EARTH_WGS84, latitude_deg = initLat' msg,
                     longitude_deg = initLon' msg, elevation = - initZ' msg,
                     heading_deg = 0\<rparr>))]"
  using assms by (simp add: SpawnCallback_origin_requests has_id'_def)

text \<open>
  C10. A spawn message without an ID makes \<open>SpawnCallback\<close> return at once: no service is
  called and the plugin's variables, \<open>hasWorldLatLon\<close> among them, are unchanged.
\<close>

theorem SpawnCallback_without_id:
  assumes "id' msg = None"
  shows "SpawnCallback lib Request this msg = (this, [])"
  using assms by (simp add: SpawnCallback_def has_id'_def)


theorem world_origin_issued_at_most_once_witness:
  "\<not> hasWorldLatLon sample_world \<and>
   find (accepted sample_world) sample_deliveries
     = Some ((\<lambda>s r. True), sample_init (Some ''tethys2'') 36) \<and>
   filter issued
     (origin_requests (snd (SpawnCallbacks sample_lib sample_world sample_deliveries))) =
     [ServiceCall ''/world/w/set_spherical_coordinates''
        (SphericalCoordinatesReq
           \<lparr>surface_model = EARTH_WGS84, latitude_deg = 36, longitude_deg = - 122,
            elevation = - 10, heading_deg = 0\<rparr>) True] \<and>
   length (filter issued
     (origin_requests (snd (SpawnCallbacks sample_lib sample_world sample_deliveries)))) \<le> 1 \<and>
   hasWorldLatLon (fst (SpawnCallbacks sample_lib sample_world sample_deliveries)) \<and>
   hasWorldLatLon (sample_world\<lparr>hasWorldLatLon := True\<rparr>) \<and>
   fst (SpawnCallbacks sample_lib (sample_world\<lparr>hasWorldLatLon := True\<rparr>) sample_deliveries)
     = sample_world\<lparr>hasWorldLatLon := True\<rparr> \<and>
   origin_requests
     (snd (SpawnCallbacks sample_lib (sample_world\<lparr>hasWorldLatLon := True\<rparr>)
             sample_deliveries)) = []"
proof -
  have run: "SpawnCallbacks sample_lib sample_world sample_deliveries
      = (fst (SpawnCallbacks sample_lib sample_world sample_deliveries),
         snd (SpawnCallbacks sample_lib sample_world sample_deliveries))"
    by simp
  have run': "SpawnCallbacks sample_lib (sample_world\<lparr>hasWorldLatLon := True\<rparr>)
        sample_deliveries
      = (fst (SpawnCallbacks sample_lib (sample_world\<lparr>hasWorldLatLon := True\<rparr>)
                sample_deliveries),
         snd (SpawnCallbacks sample_lib (sample_world\<lparr>hasWorldLatLon := True\<rparr>)
                sample_deliveries))"
    by simp
  have unset: "\<not> hasWorldLatLon sample_world" by (simp add: sample_world_def)
  have flag: "hasWorldLatLon (sample_world\<lparr>hasWorldLatLon := True\<rparr>)" by simp
  have found: "find (accepted sample_world) sample_deliveries
     = Some ((\<lambda>s r. True), sample_init (Some ''tethys2'') 36)"
    by (simp add: sample_deliveries_def accepted_def has_id'_def sample_init_def)
  have coords: "initLat' (sample_init (Some ''tethys2'') 36) = 36 \<and>
      initLon' (sample_init (Some ''tethys2'') 36) = - 122 \<and>
      initZ' (sample_init (Some ''tethys2'') 36) = 10 \<and>
      setSphericalCoordsService sample_world = ''/world/w/set_spherical_coordinates''"
    by (simp add: sample_init_def sample_world_def)
  note first_run = world_origin_issued_at_most_once [OF run]
  have "filter issued
      (origin_requests (snd (SpawnCallbacks sample_lib sample_world sample_deliveries)))
      \<noteq> []"
    using first_run unset found by simp
  then have some: "\<exists>c \<in> set (origin_requests
      (snd (SpawnCallbacks sample_lib sample_world sample_deliveries))). issued c"
    by (simp add: filter_empty_conv)
  show ?thesis
    using first_run world_origin_issued_at_most_once [OF run'] some unset flag found coords
    by simp
qed

theorem SpawnCallback_origin_request_fields_witness:
  "id' (sample_init (Some ''tethys1'') 35) = Some ''tethys1'' \<and>
   \<not> hasWorldLatLon sample_world \<and>
   origin_requests
     (snd (SpawnCallback sample_lib (\<lambda>s r. True) sample_world
             (sample_init (Some ''tethys1'') 35))) =
     [ServiceCall ''/world/w/set_spherical_coordinates''
        (SphericalCoordinatesReq
           \<lparr>surface_model = EARTH_WGS84, latitude_deg = 35, longitude_deg = - 122,
            elevation = - 10, heading_deg = 0\<rparr>) True]"
proof -
  have i: "id' (sample_init (Some ''tethys1'') 35) = Some ''tethys1''"
    by (simp add: sample_init_def)
  have f: "\<not> hasWorldLatLon sample_world" by (simp add: sample_world_def)
  show ?thesis
    using i f SpawnCallback_origin_request_fields [OF i f, of sample_lib "\<lambda>s r. True"]
    by (simp add: sample_init_def sample_world_def)
qed

theorem SpawnCallback_without_id_witness:
  "id' (sample_init None 35) = None \<and>
   SpawnCallback sample_lib (\<lambda>s r. True) sample_world (sample_init None 35)
     = (sample_world, [])"
proof -
  have i: "id' (sample_init None 35) = None" by (simp add: sample_init_def)
  show ?thesis using i SpawnCallback_without_id [OF i] by simp
qed

end
